theory Spec2Isabelle
  imports Complex_Main
begin

section \<open>The content controller and its router\<close>

text \<open>
  A shallow embedding of the content controller (\<^verbatim>\<open>controllers/content.controller\<close>) and of the
  content router (\<^verbatim>\<open>routes/content.routes\<close>). One request is handled at a time: a handler
  takes the request and the state of the world (the rows of the primary store and what the
  collaborating services have been asked to do) and returns its outcome with the new world.
  Every \<^verbatim>\<open>await\<close> of the source is a step that either yields a value or throws; what throws
  is decided by the environment of the request, so that each collaborator can be made to fail
  independently of the others.
\<close>

subsection \<open>JavaScript values\<close>

text \<open>
  The JSON values of a request body. \<open>JUndefined\<close> stands for a key the body does not have.
\<close>

datatype jsvalue =
    JUndefined
  | JNull
  | JBool bool
  | JNum rat
  | JStr string
  | JArr "jsvalue list"
  | JObj "(string \<times> jsvalue) list"

text \<open>The truthiness test behind \<^verbatim>\<open>a || b\<close>: every array and object is truthy, the empty object too.\<close>

fun truthy :: "jsvalue \<Rightarrow> bool" where
  "truthy JUndefined = False"
| "truthy JNull = False"
| "truthy (JBool b) = b"
| "truthy (JNum n) = (n \<noteq> 0)"
| "truthy (JStr s) = (s \<noteq> [])"
| "truthy (JArr xs) = True"
| "truthy (JObj kvs) = True"

definition js_or :: "jsvalue \<Rightarrow> jsvalue \<Rightarrow> jsvalue" where
  "js_or a b = (if truthy a then a else b)"

subsection \<open>JavaScript numbers\<close>

text \<open>
  Numbers are exact rationals with the three special values of a double. On integers below
  \<open>2 ^ 53\<close> and on quotients of such integers this is what JavaScript computes up to a rounding
  that \<^verbatim>\<open>Math.ceil\<close> does not see; negative zero is not distinguished from zero.
\<close>

datatype jsnum = Num rat | NaN | PosInf | NegInf

fun js_sub :: "jsnum \<Rightarrow> jsnum \<Rightarrow> jsnum" where
  "js_sub NaN _ = NaN"
| "js_sub _ NaN = NaN"
| "js_sub (Num a) (Num b) = Num (a - b)"
| "js_sub (Num a) PosInf = NegInf"
| "js_sub (Num a) NegInf = PosInf"
| "js_sub PosInf PosInf = NaN"
| "js_sub PosInf _ = PosInf"
| "js_sub NegInf NegInf = NaN"
| "js_sub NegInf _ = NegInf"

definition inf_of_sign :: "rat \<Rightarrow> jsnum" where
  "inf_of_sign a = (if a = 0 then NaN else if 0 < a then PosInf else NegInf)"

fun js_mul :: "jsnum \<Rightarrow> jsnum \<Rightarrow> jsnum" where
  "js_mul NaN _ = NaN"
| "js_mul _ NaN = NaN"
| "js_mul (Num a) (Num b) = Num (a * b)"
| "js_mul (Num a) PosInf = inf_of_sign a"
| "js_mul (Num a) NegInf = inf_of_sign (- a)"
| "js_mul PosInf (Num b) = inf_of_sign b"
| "js_mul NegInf (Num b) = inf_of_sign (- b)"
| "js_mul PosInf PosInf = PosInf"
| "js_mul PosInf NegInf = NegInf"
| "js_mul NegInf PosInf = NegInf"
| "js_mul NegInf NegInf = PosInf"

text \<open>Division: a zero divisor gives an infinity, or \<open>NaN\<close> for \<open>0 / 0\<close>.\<close>

fun js_div :: "jsnum \<Rightarrow> jsnum \<Rightarrow> jsnum" where
  "js_div NaN _ = NaN"
| "js_div _ NaN = NaN"
| "js_div (Num a) (Num b) = (if b = 0 then inf_of_sign a else Num (a / b))"
| "js_div (Num a) PosInf = Num 0"
| "js_div (Num a) NegInf = Num 0"
| "js_div PosInf (Num b) = (if 0 \<le> b then PosInf else NegInf)"
| "js_div NegInf (Num b) = (if 0 \<le> b then NegInf else PosInf)"
| "js_div PosInf _ = NaN"
| "js_div NegInf _ = NaN"

fun Math_ceil :: "jsnum \<Rightarrow> jsnum" where
  "Math_ceil (Num a) = Num (of_int \<lceil>a\<rceil>)"
| "Math_ceil x = x"

text \<open>
  The query string gives every parameter as a string; a character is a code unit below 256.
  Two conversions are applied to such a string: \<^verbatim>\<open>parseInt\<close>, and the conversion to a number
  that \<^verbatim>\<open>-\<close>, \<^verbatim>\<open>*\<close> and \<^verbatim>\<open>/\<close> apply to a string operand. Both follow the grammar of the
  language; the number a literal denotes is taken exactly (the rounding of a literal that is
  not a double is not modelled).
\<close>

definition is_space :: "char \<Rightarrow> bool" where
  "is_space c = ((of_char c :: int) \<in> {9, 10, 11, 12, 13, 32, 160})"

definition is_digit :: "char \<Rightarrow> bool" where
  "is_digit c = (48 \<le> (of_char c :: int) \<and> (of_char c :: int) \<le> 57)"

text \<open>The value of a character as a digit: \<open>0\<close> to \<open>9\<close>, then the letters, in either case.\<close>

definition digit_val :: "char \<Rightarrow> int" where
  "digit_val c =
     (let n = of_char c :: int in
      if 48 \<le> n \<and> n \<le> 57 then n - 48
      else if 97 \<le> n \<and> n \<le> 122 then n - 87
      else if 65 \<le> n \<and> n \<le> 90 then n - 55
      else 36)"

definition radix_value :: "int \<Rightarrow> string \<Rightarrow> int" where
  "radix_value r s = foldl (\<lambda>n c. r * n + digit_val c) 0 s"

definition digits_value :: "string \<Rightarrow> int" where
  "digits_value s = radix_value 10 s"

fun strip_sign :: "string \<Rightarrow> bool \<times> string" where
  "strip_sign [] = (False, [])"
| "strip_sign (c # s) =
     (if c = CHR ''-'' then (True, s) else if c = CHR ''+'' then (False, s) else (False, c # s))"

text \<open>A prefix \<^verbatim>\<open>0x\<close>, \<^verbatim>\<open>0o\<close> or \<^verbatim>\<open>0b\<close>: a zero and one of the given letters.\<close>

definition radix_prefix :: "string \<Rightarrow> string \<Rightarrow> bool" where
  "radix_prefix letters s = (case s of c # d # t \<Rightarrow> c = CHR ''0'' \<and> d \<in> set letters | _ \<Rightarrow> False)"

text \<open>
  \<^verbatim>\<open>parseInt(string)\<close>: leading white space is skipped, then a sign, then \<^verbatim>\<open>0x\<close> selects
  radix 16; the longest run of digits that follows is the result, \<open>NaN\<close> when it is empty.
  Whatever comes after the digits is ignored.
\<close>

definition parseInt :: "string \<Rightarrow> jsnum" where
  "parseInt s =
     (let (neg, t) = strip_sign (dropWhile is_space s);
          radix = (if radix_prefix ''xX'' t then 16 else 10);
          u = (if radix_prefix ''xX'' t then drop 2 t else t);
          z = takeWhile (\<lambda>c. digit_val c < radix) u
      in if z = [] then NaN
         else Num (of_int ((if neg then - 1 else 1) * radix_value radix z)))"

text \<open>
  The conversion of a string to a number: white space is trimmed at both ends; the empty
  string is \<open>0\<close>; the rest has to be, as a whole, an integer with prefix \<^verbatim>\<open>0x\<close>, \<^verbatim>\<open>0o\<close> or
  \<^verbatim>\<open>0b\<close>, or an optional sign followed by \<^verbatim>\<open>Infinity\<close> or by a decimal literal (digits, an
  optional fraction, an optional exponent); anything else is \<open>NaN\<close>.
\<close>

definition trim :: "string \<Rightarrow> string" where
  "trim s = rev (dropWhile is_space (rev (dropWhile is_space s)))"

definition pow10 :: "int \<Rightarrow> rat" where
  "pow10 k = (if 0 \<le> k then 10 ^ nat k else 1 / 10 ^ nat (- k))"

definition exponent_part :: "string \<Rightarrow> int option" where
  "exponent_part s =
     (case s of
        [] \<Rightarrow> Some 0
      | c # t \<Rightarrow>
          if c = CHR ''e'' \<or> c = CHR ''E''
          then (let (neg, u) = strip_sign t in
                if u \<noteq> [] \<and> list_all is_digit u
                then Some ((if neg then - 1 else 1) * digits_value u) else None)
          else None)"

definition unsigned_decimal :: "string \<Rightarrow> rat option" where
  "unsigned_decimal s =
     (let ip = takeWhile is_digit s;
          r1 = dropWhile is_digit s;
          fp = (case r1 of [] \<Rightarrow> [] | c # t \<Rightarrow> if c = CHR ''.'' then takeWhile is_digit t else []);
          r2 = (case r1 of [] \<Rightarrow> [] | c # t \<Rightarrow> if c = CHR ''.'' then dropWhile is_digit t else r1)
      in if ip = [] \<and> fp = [] then None
         else case exponent_part r2 of
                None \<Rightarrow> None
              | Some k \<Rightarrow>
                  Some ((of_int (digits_value ip) + of_int (digits_value fp) / 10 ^ length fp)
                        * pow10 k))"

definition nondecimal :: "string \<Rightarrow> jsnum option" where
  "nondecimal t =
     (let radix = (if radix_prefix ''xX'' t then 16 else if radix_prefix ''oO'' t then 8
                   else if radix_prefix ''bB'' t then 2 else 0);
          d = drop 2 t
      in if radix = 0 then None
         else Some (if d \<noteq> [] \<and> list_all (\<lambda>c. digit_val c < radix) d
                    then Num (of_int (radix_value radix d)) else NaN))"

definition to_number :: "string \<Rightarrow> jsnum" where
  "to_number s =
     (let t = trim s in
      if t = [] then Num 0
      else case nondecimal t of
        Some x \<Rightarrow> x
      | None \<Rightarrow>
          (let (neg, u) = strip_sign t in
           if u = ''Infinity'' then (if neg then NegInf else PosInf)
           else case unsigned_decimal u of
                  None \<Rightarrow> NaN
                | Some a \<Rightarrow> Num (if neg then - a else a)))"

text \<open>
  \<^verbatim>\<open>parseInt\<close> of a number goes through the decimal string of the number. From \<open>10\<^sup>-\<^sup>6\<close> up to
  \<open>10\<^sup>2\<^sup>1\<close> that string is in positional notation and the result is the number truncated
  towards zero; outside it is in exponent notation and the result is its first digit, with
  the sign. \<open>NaN\<close> and the infinities give \<open>NaN\<close>.
\<close>

function lead_digit :: "int \<Rightarrow> int" where
  "lead_digit n = (if n < 10 then n else lead_digit (n div 10))"
  by pat_completeness auto
termination
  by (relation "measure nat") auto

function first_digit_frac :: "int \<Rightarrow> int \<Rightarrow> int" where
  "first_digit_frac p q = (if p \<le> 0 \<or> q \<le> p then p div q else first_digit_frac (10 * p) q)"
  by pat_completeness auto
termination
  by (relation "measure (\<lambda>(p, q). nat (q - p))") auto

fun parseInt_num :: "jsnum \<Rightarrow> jsnum" where
  "parseInt_num (Num a) =
     (let sign = (if a < 0 then - 1 else 1 :: int); m = \<bar>a\<bar> in
      if a = 0 then Num 0
      else if 1 / 10 ^ 6 \<le> m \<and> m < 10 ^ 21 then Num (of_int (sign * \<lfloor>m\<rfloor>))
      else if 10 ^ 21 \<le> m then Num (of_int (sign * lead_digit \<lfloor>m\<rfloor>))
      else Num (of_int (sign * first_digit_frac (fst (quotient_of m)) (snd (quotient_of m)))))"
| "parseInt_num x = NaN"

text \<open>A destructured query parameter with its default: \<^verbatim>\<open>{ page = 1 } = req.query\<close>.\<close>

datatype qparam = Default rat | Given string

definition destructure :: "string option \<Rightarrow> rat \<Rightarrow> qparam" where
  "destructure q d = (case q of None \<Rightarrow> Default d | Some s \<Rightarrow> Given s)"

fun number_of :: "qparam \<Rightarrow> jsnum" where
  "number_of (Default d) = Num d"
| "number_of (Given s) = to_number s"

fun parseInt_of :: "qparam \<Rightarrow> jsnum" where
  "parseInt_of (Default d) = parseInt_num (Num d)"
| "parseInt_of (Given s) = parseInt s"

subsection \<open>Rows of the primary store\<close>

text \<open>
  A content item with the columns the handlers read or write. Times are readings of the clock;
  \<open>version\<close> is the integer column, to which JavaScript adds 1 exactly.
\<close>

record content =
  cid :: string
  title :: string
  body :: string
  authorId :: string
  categoryId :: "string option"
  status :: string
  metadata :: jsvalue
  version :: int
  tags :: "string list"
  createdAt :: nat
  updatedAt :: nat
  publishedAt :: "nat option"
  deletedAt :: "nat option"

record contentVersion =
  cv_contentId :: string
  cv_title :: string
  cv_body :: string
  cv_version :: int
  cv_createdBy :: string

record contentView =
  view_contentId :: string
  view_userId :: string
  view_ipAddress :: string

subsection \<open>Calls, failures, log entries\<close>

text \<open>
  The calls a handler makes to its collaborators. A call that the environment marks as failing
  throws (an awaited promise rejects) before it has any effect.
\<close>

datatype call =
    PrismaContentCreate
  | PrismaContentFindUnique
  | PrismaContentUpdate
  | PrismaContentCount
  | PrismaContentFindMany
  | PrismaContentVersionCreate
  | PrismaContentViewCreate
  | MlAnalyzeContent
  | SearchIndexContent
  | SearchUpdateContent
  | SearchDeleteContent
  | SearchSearch
  | CacheDel string
  | NotifyContentPublished

datatype thrown =
    Rejected call
  | RecordNotFound
  | UniqueConstraint
  | InvalidArgument
  | SyntaxError

datatype log_entry =
    LogError string thrown
  | LogInfo string

subsection \<open>The world and the environment of a request\<close>

record world =
  contents :: "content list"
  contentVersions :: "contentVersion list"
  tagTable :: "string list"
  contentViews :: "contentView list"
  searchIndex :: "(string \<times> content) list"
  analysisRequests :: "string list"
  cacheInvalidations :: "string list"
  notifications :: "content list"
  logs :: "log_entry list"

text \<open>
  The environment of one request: the clock (\<^verbatim>\<open>new Date()\<close>), the identifier the database
  generates for a row it inserts, and the calls that fail. Three things the handlers rely on
  are taken as parameters: the order the database puts rows in for a sort key and a direction
  (\<open>None\<close> when it refuses them), \<^verbatim>\<open>JSON.parse\<close> (\<open>None\<close> when it throws), and what the search
  service answers to a query (its hits and their total).
\<close>

record env =
  now :: nat
  newId :: string
  faults :: "call \<Rightarrow> bool"
  orderRows :: "string \<Rightarrow> string \<Rightarrow> content list \<Rightarrow> content list option"
  JSON_parse :: "string \<Rightarrow> jsvalue option"
  searchAnswer :: "string option \<Rightarrow> jsvalue \<Rightarrow> jsnum \<Rightarrow> jsnum \<Rightarrow> content list \<times> nat"

subsection \<open>Requests and responses\<close>

record user =
  uid :: string
  role :: string

text \<open>
  The body of a create or update request as \<^verbatim>\<open>validateContent\<close> lets it through: title and
  body are strings; category, tags and metadata may be absent.
\<close>

record req_body =
  in_title :: string
  in_body :: string
  in_categoryId :: "string option"
  in_tags :: "string list option"
  in_metadata :: jsvalue

record req_query =
  q_page :: "string option"
  q_limit :: "string option"
  q_status :: "string option"
  q_categoryId :: "string option"
  q_authorId :: "string option"
  q_sortBy :: "string option"
  q_order :: "string option"
  q_search :: "string option"
  q_query :: "string option"
  q_filters :: "string option"

record request =
  params_id :: string
  req_user :: user
  req_ip :: string
  req_body :: req_body
  req_query :: req_query

text \<open>
  The \<^verbatim>\<open>data\<close> of an answer. The author and the category that an \<^verbatim>\<open>include\<close> joins to an
  item are left out; the tags are part of the item.
\<close>

datatype payload =
    NoData
  | Item content
  | Items "content list"

record pagination =
  page :: jsnum
  limit :: jsnum
  total :: nat
  pages :: jsnum

text \<open>
  What a handler does with the request: \<open>Res\<close> is \<^verbatim>\<open>res.status(code).json({success: true, ...})\<close>
  with its data, message and pagination, \<open>NextErr\<close> is \<^verbatim>\<open>next(new AppError(message, code))\<close>.
\<close>

datatype outcome =
    Res nat payload "string option" "pagination option"
  | NextErr string nat

subsection \<open>Sequencing awaited steps\<close>

text \<open>
  An awaited step returns \<open>Inl\<close> of what it threw or \<open>Inr\<close> of its value, with the world it
  leaves behind. \<open>await\<close> runs the rest of the \<^verbatim>\<open>try\<close> block only after a step that did not
  throw; the effects of the steps before a throw stay.
\<close>

definition await ::
  "(thrown + 'a) \<times> world \<Rightarrow> ('a \<Rightarrow> world \<Rightarrow> (thrown + 'b) \<times> world) \<Rightarrow> (thrown + 'b) \<times> world" where
  "await m k = (case m of (Inl e, w) \<Rightarrow> (Inl e, w) | (Inr x, w) \<Rightarrow> k x w)"

definition logger_error :: "string \<Rightarrow> thrown \<Rightarrow> world \<Rightarrow> world" where
  "logger_error msg e w = w\<lparr>logs := logs w @ [LogError msg e]\<rparr>"

definition logger_info :: "string \<Rightarrow> world \<Rightarrow> world" where
  "logger_info msg w = w\<lparr>logs := logs w @ [LogInfo msg]\<rparr>"

text \<open>
  The \<^verbatim>\<open>catch\<close> block every handler ends with: the error is logged and the request is passed
  on with a generic failure of status 500.
\<close>

definition try_catch ::
  "string \<Rightarrow> string \<Rightarrow> (thrown + outcome) \<times> world \<Rightarrow> outcome \<times> world" where
  "try_catch logmsg failmsg m =
     (case m of
        (Inr out, w) \<Rightarrow> (out, w)
      | (Inl e, w) \<Rightarrow> (NextErr failmsg 500, logger_error logmsg e w))"

subsection \<open>The primary store\<close>

text \<open>
  Modelled from the spec: the database schema (\<^verbatim>\<open>prisma/schema.prisma\<close>) is not among the
  sources, and \<^verbatim>\<open>createContent\<close> does not set \<open>version\<close>; the column's default is taken from
  the specification, which has a content item inserted with version 1.
\<close>

definition schema_default_version :: int where
  "schema_default_version = 1"

definition findRow :: "string \<Rightarrow> content list \<Rightarrow> content option" where
  "findRow i rows = find (\<lambda>c. cid c = i) rows"

text \<open>
  \<^verbatim>\<open>connectOrCreate\<close> on the tag dictionary: a name the dictionary has is connected, any
  other is created first. The item's tags are a relation, so a name given twice is there once.
  (Whether the database accepts a write at all is the environment's choice: the call may throw.)
\<close>

definition connectOrCreate :: "string list \<Rightarrow> string list \<Rightarrow> string list" where
  "connectOrCreate names table = table @ filter (\<lambda>t. t \<notin> set table) (remdups names)"

record create_data =
  d_title :: string
  d_body :: string
  d_authorId :: string
  d_categoryId :: "string option"
  d_status :: string
  d_metadata :: jsvalue
  d_tags :: "string list"

definition prisma_content_create :: "env \<Rightarrow> create_data \<Rightarrow> world \<Rightarrow> (thrown + content) \<times> world" where
  "prisma_content_create e d w =
     (if faults e PrismaContentCreate then (Inl (Rejected PrismaContentCreate), w)
      else if findRow (newId e) (contents w) \<noteq> None then (Inl UniqueConstraint, w)
      else
        let row = \<lparr>cid = newId e, title = d_title d, body = d_body d, authorId = d_authorId d,
                   categoryId = d_categoryId d, status = d_status d, metadata = d_metadata d,
                   version = schema_default_version, tags = remdups (d_tags d),
                   createdAt = now e, updatedAt = now e, publishedAt = None, deletedAt = None\<rparr>
        in (Inr row, w\<lparr>contents := contents w @ [row],
                         tagTable := connectOrCreate (d_tags d) (tagTable w)\<rparr>))"

definition prisma_content_findUnique :: "env \<Rightarrow> string \<Rightarrow> world \<Rightarrow> (thrown + content option) \<times> world" where
  "prisma_content_findUnique e i w =
     (if faults e PrismaContentFindUnique then (Inl (Rejected PrismaContentFindUnique), w)
      else (Inr (findRow i (contents w)), w))"

text \<open>
  The \<^verbatim>\<open>data\<close> of an update: a field that is \<open>None\<close> (\<^verbatim>\<open>undefined\<close>, or not mentioned) is left
  as it is. \<open>u_tags = Some ts\<close> is \<^verbatim>\<open>{set: [], connectOrCreate: ...}\<close>: the item's tags are
  cleared and the given names connected. A column the schema would refresh by itself on every
  write (the time of the last update) is not modelled; no property below rests on the time of
  update of a row that a handler does not set.
\<close>

record update_data =
  u_title :: "string option"
  u_body :: "string option"
  u_categoryId :: "string option"
  u_metadata :: "jsvalue option"
  u_version :: "int option"
  u_updatedAt :: "nat option"
  u_tags :: "string list option"
  u_status :: "string option"
  u_publishedAt :: "nat option"
  u_deletedAt :: "nat option"

definition no_change :: update_data where
  "no_change = \<lparr>u_title = None, u_body = None, u_categoryId = None, u_metadata = None,
     u_version = None, u_updatedAt = None, u_tags = None, u_status = None,
     u_publishedAt = None, u_deletedAt = None\<rparr>"

definition apply_update :: "update_data \<Rightarrow> content \<Rightarrow> content" where
  "apply_update d c =
     c\<lparr>title := (case u_title d of None \<Rightarrow> title c | Some x \<Rightarrow> x),
       body := (case u_body d of None \<Rightarrow> body c | Some x \<Rightarrow> x),
       categoryId := (case u_categoryId d of None \<Rightarrow> categoryId c | Some x \<Rightarrow> Some x),
       metadata := (case u_metadata d of None \<Rightarrow> metadata c | Some x \<Rightarrow> x),
       version := (case u_version d of None \<Rightarrow> version c | Some x \<Rightarrow> x),
       updatedAt := (case u_updatedAt d of None \<Rightarrow> updatedAt c | Some x \<Rightarrow> x),
       tags := (case u_tags d of None \<Rightarrow> tags c | Some x \<Rightarrow> remdups x),
       status := (case u_status d of None \<Rightarrow> status c | Some x \<Rightarrow> x),
       publishedAt := (case u_publishedAt d of None \<Rightarrow> publishedAt c | Some x \<Rightarrow> Some x),
       deletedAt := (case u_deletedAt d of None \<Rightarrow> deletedAt c | Some x \<Rightarrow> Some x)\<rparr>"

text \<open>An update of a row that does not exist throws (the record to update was not found).\<close>

definition prisma_content_update ::
  "env \<Rightarrow> string \<Rightarrow> update_data \<Rightarrow> world \<Rightarrow> (thrown + content) \<times> world" where
  "prisma_content_update e i d w =
     (if faults e PrismaContentUpdate then (Inl (Rejected PrismaContentUpdate), w)
      else case findRow i (contents w) of
        None \<Rightarrow> (Inl RecordNotFound, w)
      | Some c \<Rightarrow>
          (Inr (apply_update d c),
           w\<lparr>contents := map (\<lambda>x. if cid x = i then apply_update d c else x) (contents w),
             tagTable := (case u_tags d of None \<Rightarrow> tagTable w
                          | Some ts \<Rightarrow> connectOrCreate ts (tagTable w))\<rparr>))"

definition prisma_contentVersion_create ::
  "env \<Rightarrow> contentVersion \<Rightarrow> world \<Rightarrow> (thrown + unit) \<times> world" where
  "prisma_contentVersion_create e v w =
     (if faults e PrismaContentVersionCreate then (Inl (Rejected PrismaContentVersionCreate), w)
      else (Inr (), w\<lparr>contentVersions := contentVersions w @ [v]\<rparr>))"

definition prisma_contentView_create ::
  "env \<Rightarrow> contentView \<Rightarrow> world \<Rightarrow> (thrown + unit) \<times> world" where
  "prisma_contentView_create e v w =
     (if faults e PrismaContentViewCreate then (Inl (Rejected PrismaContentViewCreate), w)
      else (Inr (), w\<lparr>contentViews := contentViews w @ [v]\<rparr>))"

subsection \<open>The collaborating services\<close>

text \<open>
  Modelled from the spec: the search service (\<^verbatim>\<open>services/search.service\<close>) is not among the
  sources. By the specification's contract of the search index client, \<open>index\<close> and \<open>update\<close>
  upsert the document of an item and \<open>delete\<close> removes it.
\<close>

definition upsert_doc :: "content \<Rightarrow> (string \<times> content) list \<Rightarrow> (string \<times> content) list" where
  "upsert_doc c idx = (cid c, c) # filter (\<lambda>kv. fst kv \<noteq> cid c) idx"

definition remove_doc :: "string \<Rightarrow> (string \<times> content) list \<Rightarrow> (string \<times> content) list" where
  "remove_doc i idx = filter (\<lambda>kv. fst kv \<noteq> i) idx"

definition searchService_indexContent :: "env \<Rightarrow> content \<Rightarrow> world \<Rightarrow> (thrown + unit) \<times> world" where
  "searchService_indexContent e c w =
     (if faults e SearchIndexContent then (Inl (Rejected SearchIndexContent), w)
      else (Inr (), w\<lparr>searchIndex := upsert_doc c (searchIndex w)\<rparr>))"

definition searchService_updateContent :: "env \<Rightarrow> content \<Rightarrow> world \<Rightarrow> (thrown + unit) \<times> world" where
  "searchService_updateContent e c w =
     (if faults e SearchUpdateContent then (Inl (Rejected SearchUpdateContent), w)
      else (Inr (), w\<lparr>searchIndex := upsert_doc c (searchIndex w)\<rparr>))"

definition searchService_deleteContent :: "env \<Rightarrow> string \<Rightarrow> world \<Rightarrow> (thrown + unit) \<times> world" where
  "searchService_deleteContent e i w =
     (if faults e SearchDeleteContent then (Inl (Rejected SearchDeleteContent), w)
      else (Inr (), w\<lparr>searchIndex := remove_doc i (searchIndex w)\<rparr>))"

text \<open>The cache, the analysis service and the notifier are recorded by what they were asked.\<close>

definition cacheService_del :: "env \<Rightarrow> string \<Rightarrow> world \<Rightarrow> (thrown + unit) \<times> world" where
  "cacheService_del e k w =
     (if faults e (CacheDel k) then (Inl (Rejected (CacheDel k)), w)
      else (Inr (), w\<lparr>cacheInvalidations := cacheInvalidations w @ [k]\<rparr>))"

definition notificationService_notifyContentPublished ::
  "env \<Rightarrow> content \<Rightarrow> world \<Rightarrow> (thrown + unit) \<times> world" where
  "notificationService_notifyContentPublished e c w =
     (if faults e NotifyContentPublished then (Inl (Rejected NotifyContentPublished), w)
      else (Inr (), w\<lparr>notifications := notifications w @ [c]\<rparr>))"

text \<open>
  \<^verbatim>\<open>mlService.analyzeContent(id).catch(error => logger.error(...))\<close>: the promise is not
  awaited, and its rejection is logged by the handler attached to it. The log entry is put
  where the call is made; when it is written relative to the later entries is not modelled.
\<close>

definition mlService_analyzeContent_catch :: "env \<Rightarrow> string \<Rightarrow> world \<Rightarrow> world" where
  "mlService_analyzeContent_catch e i w =
     (if faults e MlAnalyzeContent
      then logger_error ''Error analyzing content:'' (Rejected MlAnalyzeContent) w
      else w\<lparr>analysisRequests := analysisRequests w @ [i]\<rparr>)"

text \<open>\<^verbatim>\<open>prisma.contentView.create(...).catch(() => {})\<close>: a failure is ignored.\<close>

definition prisma_contentView_create_catch :: "env \<Rightarrow> contentView \<Rightarrow> world \<Rightarrow> world" where
  "prisma_contentView_create_catch e v w = snd (prisma_contentView_create e v w)"

subsection \<open>The mutating handlers\<close>

definition createContent_try :: "env \<Rightarrow> request \<Rightarrow> world \<Rightarrow> (thrown + outcome) \<times> world" where
  "createContent_try e r w =
     (let b = req_body r; userId = uid (req_user r) in
      await (prisma_content_create e
               \<lparr>d_title = in_title b, d_body = in_body b, d_authorId = userId,
                d_categoryId = in_categoryId b, d_status = ''draft'',
                d_metadata = js_or (in_metadata b) (JObj []),
                d_tags = (case in_tags b of None \<Rightarrow> [] | Some ts \<Rightarrow> ts)\<rparr> w)
        (\<lambda>content w1.
           let w2 = mlService_analyzeContent_catch e (cid content) w1 in
           await (searchService_indexContent e content w2) (\<lambda>_ w3.
           await (cacheService_del e ''content:list:*'' w3) (\<lambda>_ w4.
             (Inr (Res 201 (Item content) (Some ''Content created successfully'') None),
              logger_info (''Content created: '' @ cid content @ '' by user '' @ userId) w4)))))"

definition createContent :: "env \<Rightarrow> request \<Rightarrow> world \<Rightarrow> outcome \<times> world" where
  "createContent e r w =
     try_catch ''Error creating content:'' ''Failed to create content'' (createContent_try e r w)"

definition updateContent_try :: "env \<Rightarrow> request \<Rightarrow> world \<Rightarrow> (thrown + outcome) \<times> world" where
  "updateContent_try e r w =
     (let i = params_id r; b = req_body r; userId = uid (req_user r) in
      await (prisma_content_findUnique e i w) (\<lambda>found w1.
        case found of
          None \<Rightarrow> (Inr (NextErr ''Content not found'' 404), w1)
        | Some existingContent \<Rightarrow>
            if authorId existingContent \<noteq> userId \<and> role (req_user r) \<noteq> ''admin''
            then (Inr (NextErr ''Not authorized to update this content'' 403), w1)
            else
              await (prisma_contentVersion_create e
                       \<lparr>cv_contentId = i, cv_title = title existingContent,
                        cv_body = body existingContent, cv_version = version existingContent,
                        cv_createdBy = userId\<rparr> w1) (\<lambda>_ w2.
              await (prisma_content_update e i
                       (no_change\<lparr>u_title := Some (in_title b), u_body := Some (in_body b),
                          u_categoryId := in_categoryId b,
                          u_metadata := Some (js_or (in_metadata b) (metadata existingContent)),
                          u_version := Some (version existingContent + 1),
                          u_updatedAt := Some (now e),
                          u_tags := in_tags b\<rparr>) w2) (\<lambda>content w3.
                let w4 = mlService_analyzeContent_catch e (cid content) w3 in
                await (searchService_updateContent e content w4) (\<lambda>_ w5.
                await (cacheService_del e (''content:'' @ i) w5) (\<lambda>_ w6.
                await (cacheService_del e ''content:list:*'' w6) (\<lambda>_ w7.
                  (Inr (Res 200 (Item content) (Some ''Content updated successfully'') None),
                   logger_info (''Content updated: '' @ i @ '' by user '' @ userId) w7))))))))"

definition updateContent :: "env \<Rightarrow> request \<Rightarrow> world \<Rightarrow> outcome \<times> world" where
  "updateContent e r w =
     try_catch ''Error updating content:'' ''Failed to update content'' (updateContent_try e r w)"

definition deleteContent_try :: "env \<Rightarrow> request \<Rightarrow> world \<Rightarrow> (thrown + outcome) \<times> world" where
  "deleteContent_try e r w =
     (let i = params_id r; userId = uid (req_user r) in
      await (prisma_content_findUnique e i w) (\<lambda>found w1.
        case found of
          None \<Rightarrow> (Inr (NextErr ''Content not found'' 404), w1)
        | Some content \<Rightarrow>
            if authorId content \<noteq> userId \<and> role (req_user r) \<noteq> ''admin''
            then (Inr (NextErr ''Not authorized to delete this content'' 403), w1)
            else
              await (prisma_content_update e i
                       (no_change\<lparr>u_deletedAt := Some (now e), u_status := Some ''deleted''\<rparr>) w1)
                (\<lambda>_ w2.
              await (searchService_deleteContent e i w2) (\<lambda>_ w3.
              await (cacheService_del e (''content:'' @ i) w3) (\<lambda>_ w4.
              await (cacheService_del e ''content:list:*'' w4) (\<lambda>_ w5.
                (Inr (Res 200 NoData (Some ''Content deleted successfully'') None),
                 logger_info (''Content deleted: '' @ i @ '' by user '' @ userId) w5)))))))"

definition deleteContent :: "env \<Rightarrow> request \<Rightarrow> world \<Rightarrow> outcome \<times> world" where
  "deleteContent e r w =
     try_catch ''Error deleting content:'' ''Failed to delete content'' (deleteContent_try e r w)"

definition publishContent_try :: "env \<Rightarrow> request \<Rightarrow> world \<Rightarrow> (thrown + outcome) \<times> world" where
  "publishContent_try e r w =
     (let i = params_id r; userId = uid (req_user r) in
      await (prisma_content_update e i
               (no_change\<lparr>u_status := Some ''published'', u_publishedAt := Some (now e)\<rparr>) w)
        (\<lambda>content w1.
      await (notificationService_notifyContentPublished e content w1) (\<lambda>_ w2.
      await (cacheService_del e (''content:'' @ i) w2) (\<lambda>_ w3.
      await (cacheService_del e ''content:list:*'' w3) (\<lambda>_ w4.
        (Inr (Res 200 (Item content) (Some ''Content published successfully'') None),
         logger_info (''Content published: '' @ i @ '' by user '' @ userId) w4))))))"

definition publishContent :: "env \<Rightarrow> request \<Rightarrow> world \<Rightarrow> outcome \<times> world" where
  "publishContent e r w =
     try_catch ''Error publishing content:'' ''Failed to publish content'' (publishContent_try e r w)"

subsection \<open>The reading handlers\<close>

definition getContentById_try :: "env \<Rightarrow> request \<Rightarrow> world \<Rightarrow> (thrown + outcome) \<times> world" where
  "getContentById_try e r w =
     (let i = params_id r in
      await (prisma_content_findUnique e i w) (\<lambda>found w1.
        case found of
          None \<Rightarrow> (Inr (NextErr ''Content not found'' 404), w1)
        | Some content \<Rightarrow>
            let w2 = prisma_contentView_create_catch e
                       \<lparr>view_contentId = i, view_userId = uid (req_user r),
                        view_ipAddress = req_ip r\<rparr> w1
            in (Inr (Res 200 (Item content) None None), w2)))"

definition getContentById :: "env \<Rightarrow> request \<Rightarrow> world \<Rightarrow> outcome \<times> world" where
  "getContentById e r w =
     try_catch ''Error fetching content:'' ''Failed to fetch content'' (getContentById_try e r w)"

subsection \<open>Listing and searching\<close>

text \<open>\<^verbatim>\<open>if (status) where.status = status\<close>: an absent or empty parameter adds no condition.\<close>

definition if_given :: "string option \<Rightarrow> string option" where
  "if_given q = (case q of None \<Rightarrow> None | Some s \<Rightarrow> if s = [] then None else Some s)"

record where_filter =
  where_status :: "string option"
  where_categoryId :: "string option"
  where_authorId :: "string option"
  where_search :: "string option"

definition to_lower :: "char \<Rightarrow> char" where
  "to_lower c =
     (if 65 \<le> (of_char c :: nat) \<and> (of_char c :: nat) \<le> 90 then char_of (of_char c + (32 :: nat))
      else c)"

fun starts_with :: "string \<Rightarrow> string \<Rightarrow> bool" where
  "starts_with [] ys = True"
| "starts_with (x # xs) [] = False"
| "starts_with (x # xs) (y # ys) = (x = y \<and> starts_with xs ys)"

fun contains :: "string \<Rightarrow> string \<Rightarrow> bool" where
  "contains needle [] = (needle = [])"
| "contains needle (y # ys) = (starts_with needle (y # ys) \<or> contains needle ys)"

text \<open>\<^verbatim>\<open>{ contains: search, mode: 'insensitive' }\<close>, on ASCII letters.\<close>

definition contains_insensitive :: "string \<Rightarrow> string \<Rightarrow> bool" where
  "contains_insensitive needle hay = contains (map to_lower needle) (map to_lower hay)"

definition row_matches :: "where_filter \<Rightarrow> content \<Rightarrow> bool" where
  "row_matches f c =
     ((case where_status f of None \<Rightarrow> True | Some s \<Rightarrow> status c = s) \<and>
      (case where_categoryId f of None \<Rightarrow> True | Some s \<Rightarrow> categoryId c = Some s) \<and>
      (case where_authorId f of None \<Rightarrow> True | Some s \<Rightarrow> authorId c = s) \<and>
      (case where_search f of None \<Rightarrow> True
       | Some s \<Rightarrow> contains_insensitive s (title c) \<or> contains_insensitive s (body c)))"

definition prisma_content_count :: "env \<Rightarrow> where_filter \<Rightarrow> world \<Rightarrow> (thrown + nat) \<times> world" where
  "prisma_content_count e f w =
     (if faults e PrismaContentCount then (Inl (Rejected PrismaContentCount), w)
      else (Inr (length (filter (row_matches f) (contents w))), w))"

text \<open>
  \<open>skip\<close> and \<open>take\<close> have to be integers, or the query is refused; so is a negative \<open>skip\<close>. A
  negative \<open>take\<close> counts from the end of the rows.
\<close>

definition int_arg :: "jsnum \<Rightarrow> int option" where
  "int_arg x = (case x of Num a \<Rightarrow> (if of_int \<lfloor>a\<rfloor> = a then Some \<lfloor>a\<rfloor> else None) | _ \<Rightarrow> None)"

definition page_of_rows :: "int \<Rightarrow> int \<Rightarrow> content list \<Rightarrow> content list" where
  "page_of_rows s t rows =
     (if 0 \<le> t then take (nat t) (drop (nat s) rows)
      else rev (take (nat (- t)) (drop (nat s) (rev rows))))"

definition prisma_content_findMany ::
  "env \<Rightarrow> where_filter \<Rightarrow> jsnum \<Rightarrow> jsnum \<Rightarrow> string \<Rightarrow> string \<Rightarrow> world
     \<Rightarrow> (thrown + content list) \<times> world" where
  "prisma_content_findMany e f skip tk sortBy order w =
     (if faults e PrismaContentFindMany then (Inl (Rejected PrismaContentFindMany), w)
      else case (int_arg skip, int_arg tk,
                 orderRows e sortBy order (filter (row_matches f) (contents w))) of
        (Some s, Some t, Some rows) \<Rightarrow>
          if s < 0 then (Inl InvalidArgument, w) else (Inr (page_of_rows s t rows), w)
      | _ \<Rightarrow> (Inl InvalidArgument, w))"

text \<open>
  In both handlers the envelope reports \<^verbatim>\<open>parseInt(limit)\<close>, and \<open>pages\<close> divides the total by
  \<open>limit\<close> as it came, converted to a number by the division.
\<close>

definition getAllContent_try :: "env \<Rightarrow> request \<Rightarrow> world \<Rightarrow> (thrown + outcome) \<times> world" where
  "getAllContent_try e r w =
     (let q = req_query r;
          page = destructure (q_page q) 1;
          limit = destructure (q_limit q) 20;
          sortBy = (case q_sortBy q of None \<Rightarrow> ''createdAt'' | Some s \<Rightarrow> s);
          order = (case q_order q of None \<Rightarrow> ''desc'' | Some s \<Rightarrow> s);
          skip = js_mul (js_sub (number_of page) (Num 1)) (number_of limit);
          wh = \<lparr>where_status = if_given (q_status q), where_categoryId = if_given (q_categoryId q),
                where_authorId = if_given (q_authorId q), where_search = if_given (q_search q)\<rparr>
      in await (prisma_content_count e wh w) (\<lambda>total w1.
         await (prisma_content_findMany e wh (parseInt_num skip) (parseInt_of limit) sortBy order w1)
           (\<lambda>content w2.
              (Inr (Res 200 (Items content) None
                 (Some \<lparr>page = parseInt_of page, limit = parseInt_of limit, total = total,
                    pages = Math_ceil (js_div (Num (of_nat total)) (number_of limit))\<rparr>)),
               w2))))"

definition getAllContent :: "env \<Rightarrow> request \<Rightarrow> world \<Rightarrow> outcome \<times> world" where
  "getAllContent e r w =
     try_catch ''Error fetching content:'' ''Failed to fetch content'' (getAllContent_try e r w)"

definition parse_filters :: "env \<Rightarrow> string option \<Rightarrow> world \<Rightarrow> (thrown + jsvalue) \<times> world" where
  "parse_filters e q w =
     (case if_given q of
        None \<Rightarrow> (Inr (JObj []), w)
      | Some s \<Rightarrow> (case JSON_parse e s of None \<Rightarrow> (Inl SyntaxError, w) | Some v \<Rightarrow> (Inr v, w)))"

definition searchService_search ::
  "env \<Rightarrow> string option \<Rightarrow> jsvalue \<Rightarrow> jsnum \<Rightarrow> jsnum \<Rightarrow> world
     \<Rightarrow> (thrown + content list \<times> nat) \<times> world" where
  "searchService_search e query filters page_i limit_i w =
     (if faults e SearchSearch then (Inl (Rejected SearchSearch), w)
      else (Inr (searchAnswer e query filters page_i limit_i), w))"

definition searchContent_try :: "env \<Rightarrow> request \<Rightarrow> world \<Rightarrow> (thrown + outcome) \<times> world" where
  "searchContent_try e r w =
     (let q = req_query r;
          page = destructure (q_page q) 1;
          limit = destructure (q_limit q) 20
      in await (parse_filters e (q_filters q) w) (\<lambda>filters w1.
         await (searchService_search e (q_query q) filters (parseInt_of page) (parseInt_of limit) w1)
           (\<lambda>results w2.
              (Inr (Res 200 (Items (fst results)) None
                 (Some \<lparr>page = parseInt_of page, limit = parseInt_of limit, total = snd results,
                    pages = Math_ceil (js_div (Num (of_nat (snd results))) (number_of limit))\<rparr>)),
               w2))))"

definition searchContent :: "env \<Rightarrow> request \<Rightarrow> world \<Rightarrow> outcome \<times> world" where
  "searchContent e r w =
     try_catch ''Error searching content:'' ''Failed to search content'' (searchContent_try e r w)"

subsection \<open>The router\<close>

datatype http_method = GET | POST | PUT | DELETE

datatype segment = Lit string | Param string

datatype middleware = ValidateContent | CheckPermission string | CacheMiddleware nat

text \<open>
  A registration \<^verbatim>\<open>router.METHOD(path, middleware..., contentController.name)\<close>: the handler
  is the property of the controller's exports with that name.
\<close>

record route =
  route_method :: http_method
  route_path :: "segment list"
  route_middleware :: "middleware list"
  route_handler :: string

definition mk_route :: "http_method \<Rightarrow> segment list \<Rightarrow> middleware list \<Rightarrow> string \<Rightarrow> route" where
  "mk_route m p mw h = \<lparr>route_method = m, route_path = p, route_middleware = mw, route_handler = h\<rparr>"

text \<open>The registrations of the content router, in the order of the file.\<close>

definition content_routes :: "route list" where
  "content_routes =
     [mk_route POST [] [ValidateContent, CheckPermission ''content:create''] ''createContent'',
      mk_route GET [] [CacheMiddleware 300] ''getAllContent'',
      mk_route GET [Param ''id''] [CacheMiddleware 300] ''getContentById'',
      mk_route PUT [Param ''id''] [ValidateContent, CheckPermission ''content:update''] ''updateContent'',
      mk_route DELETE [Param ''id''] [CheckPermission ''content:delete''] ''deleteContent'',
      mk_route GET [Lit ''search''] [] ''searchContent'',
      mk_route POST [Param ''id'', Lit ''publish''] [CheckPermission ''content:publish''] ''publishContent'',
      mk_route POST [Param ''id'', Lit ''archive''] [CheckPermission ''content:archive''] ''archiveContent'',
      mk_route GET [Param ''id'', Lit ''versions''] [] ''getVersionHistory'',
      mk_route POST [Param ''id'', Lit ''restore'', Param ''versionId'']
        [CheckPermission ''content:update''] ''restoreVersion'',
      mk_route POST [Param ''id'', Lit ''duplicate''] [CheckPermission ''content:create'']
        ''duplicateContent'',
      mk_route GET [Param ''id'', Lit ''analytics''] [] ''getContentAnalytics'']"

text \<open>The names the controller assigns to \<^verbatim>\<open>exports\<close>, in the order of the file.\<close>

definition controller_exports :: "string list" where
  "controller_exports =
     [''createContent'', ''getAllContent'', ''getContentById'', ''updateContent'',
      ''deleteContent'', ''searchContent'', ''publishContent'', ''getVersionHistory'',
      ''getContentAnalytics'']"

text \<open>
  Express refuses a registration whose handler is not a function: the call throws while the
  router module is loaded, and the registrations after it are never made.
\<close>

datatype load_error = RequiresCallback http_method string

definition register :: "route \<Rightarrow> load_error + route" where
  "register rt =
     (if route_handler rt \<in> set controller_exports then Inr rt
      else Inl (RequiresCallback (route_method rt) (route_handler rt)))"

fun load_router :: "route list \<Rightarrow> load_error + route list" where
  "load_router [] = Inr []"
| "load_router (rt # rts) =
     (case register rt of
        Inl err \<Rightarrow> Inl err
      | Inr x \<Rightarrow> (case load_router rts of Inl err \<Rightarrow> Inl err | Inr xs \<Rightarrow> Inr (x # xs)))"

text \<open>
  Matching a request path, given as its segments below the mount point of the router: a
  literal segment has to be equal up to the case of its letters (the router is not case
  sensitive), a parameter takes any segment.
\<close>

fun match_path :: "segment list \<Rightarrow> string list \<Rightarrow> (string \<times> string) list option" where
  "match_path [] [] = Some []"
| "match_path (Lit l # ps) (x # xs) =
     (if map to_lower l = map to_lower x then match_path ps xs else None)"
| "match_path (Param n # ps) (x # xs) = map_option ((#) (n, x)) (match_path ps xs)"
| "match_path _ _ = None"

text \<open>
  A request goes to the first registration, in the order of registration, whose method and
  path match it: its middleware runs, then its handler. The registrations after it are tried
  only if the last handler of that one calls \<^verbatim>\<open>next()\<close> with no argument, which no handler of
  the controller does: each of them answers or passes an error on.
\<close>

fun first_match :: "route list \<Rightarrow> http_method \<Rightarrow> string list \<Rightarrow> (route \<times> (string \<times> string) list) option" where
  "first_match [] m p = None"
| "first_match (rt # rts) m p =
     (if route_method rt = m
      then (case match_path (route_path rt) p of
              Some params \<Rightarrow> Some (rt, params)
            | None \<Rightarrow> first_match rts m p)
      else first_match rts m p)"

subsection \<open>Success of a request\<close>

text \<open>A request succeeded when the handler answered it, and failed when it passed an error on.\<close>

definition succeeded :: "outcome \<Rightarrow> bool" where
  "succeeded out = (case out of Res code p m pg \<Rightarrow> True | NextErr m code \<Rightarrow> False)"

subsection \<open>A sample world\<close>

definition alice :: user where
  "alice = \<lparr>uid = ''alice'', role = ''editor''\<rparr>"

definition mallory :: user where
  "mallory = \<lparr>uid = ''mallory'', role = ''editor''\<rparr>"

definition item1 :: content where
  "item1 = \<lparr>cid = ''c1'', title = ''Old title'', body = ''Old body'', authorId = ''alice'',
     categoryId = None, status = ''published'', metadata = JObj [(''lang'', JStr ''en'')],
     version = 3, tags = [''news''], createdAt = 10, updatedAt = 20, publishedAt = Some 30,
     deletedAt = None\<rparr>"

definition item2 :: content where
  "item2 = \<lparr>cid = ''c2'', title = ''Second'', body = ''Text'', authorId = ''alice'',
     categoryId = None, status = ''draft'', metadata = JObj [], version = 1, tags = [],
     createdAt = 40, updatedAt = 40, publishedAt = None, deletedAt = None\<rparr>"

definition item3 :: content where
  "item3 = \<lparr>cid = ''c3'', title = ''Third'', body = ''Text'', authorId = ''mallory'',
     categoryId = None, status = ''draft'', metadata = JObj [], version = 1, tags = [],
     createdAt = 50, updatedAt = 50, publishedAt = None, deletedAt = None\<rparr>"

definition world1 :: world where
  "world1 = \<lparr>contents = [item1, item2, item3], contentVersions = [], tagTable = [''news''],
     contentViews = [], searchIndex = [(''c1'', item1)], analysisRequests = [],
     cacheInvalidations = [], notifications = [], logs = []\<rparr>"

definition env_ok :: env where
  "env_ok = \<lparr>now = 100, newId = ''c4'', faults = (\<lambda>c. False),
     orderRows = (\<lambda>sortBy order rows. Some rows), JSON_parse = (\<lambda>s. None),
     searchAnswer = (\<lambda>query filters page_i limit_i. ([item1], 45))\<rparr>"

definition env_failing :: "call \<Rightarrow> env" where
  "env_failing c = env_ok\<lparr>faults := (\<lambda>x. x = c)\<rparr>"

definition no_query :: req_query where
  "no_query = \<lparr>q_page = None, q_limit = None, q_status = None, q_categoryId = None,
     q_authorId = None, q_sortBy = None, q_order = None, q_search = None, q_query = None,
     q_filters = None\<rparr>"

definition edit_body :: req_body where
  "edit_body = \<lparr>in_title = ''New title'', in_body = ''New body'', in_categoryId = None,
     in_tags = None, in_metadata = JUndefined\<rparr>"

definition new_body :: req_body where
  "new_body = \<lparr>in_title = ''A'', in_body = ''B'', in_categoryId = None,
     in_tags = Some [''news'', ''tech'', ''news''], in_metadata = JUndefined\<rparr>"

definition request_of :: "user \<Rightarrow> string \<Rightarrow> req_body \<Rightarrow> req_query \<Rightarrow> request" where
  "request_of u i b q =
     \<lparr>params_id = i, req_user = u, req_ip = ''127.0.0.1'', req_body = b, req_query = q\<rparr>"

section \<open>Properties\<close>

subsection \<open>Unfolding the steps, and facts about rows\<close>

lemmas step_defs = await_def try_catch_def logger_error_def logger_info_def
  prisma_content_create_def prisma_content_findUnique_def prisma_content_update_def
  prisma_contentVersion_create_def prisma_contentView_create_def
  prisma_contentView_create_catch_def searchService_indexContent_def
  searchService_updateContent_def searchService_deleteContent_def cacheService_del_def
  notificationService_notifyContentPublished_def mlService_analyzeContent_catch_def

lemmas sample_defs = alice_def mallory_def item1_def item2_def item3_def world1_def env_ok_def
  env_failing_def no_query_def edit_body_def new_body_def request_of_def

lemma findRow_cid: "findRow i rows = Some c \<Longrightarrow> cid c = i"
  unfolding findRow_def by (induction rows) (auto split: if_splits)

lemma findRow_map:
  "findRow i rows = Some c \<Longrightarrow> cid c' = i \<Longrightarrow>
   findRow i (map (\<lambda>x. if cid x = i then c' else x) rows) = Some c'"
  unfolding findRow_def by (induction rows) (auto split: if_splits)

lemma findRow_append_new:
  "findRow i rows = None \<Longrightarrow> cid c = i \<Longrightarrow> findRow i (rows @ [c]) = Some c"
  unfolding findRow_def by (induction rows) (auto split: if_splits)

lemma cid_apply_update: "cid (apply_update d c) = cid c"
  by (simp add: apply_update_def)

lemma map_cid_update:
  "cid c' = i \<Longrightarrow> map cid (map (\<lambda>x. if cid x = i then c' else x) rows) = map cid rows"
  by (induction rows) auto

lemma findRow_map_apply:
  "findRow i rows = Some c \<Longrightarrow>
   findRow i (map (\<lambda>x. if cid x = i then apply_update d c else x) rows) = Some (apply_update d c)"
  using findRow_map[of i rows c "apply_update d c"] findRow_cid[of i rows c]
  by (simp add: cid_apply_update)

lemma map_cid_apply:
  "findRow i rows = Some c \<Longrightarrow>
   map cid (map (\<lambda>x. if cid x = i then apply_update d c else x) rows) = map cid rows"
  using map_cid_update[of "apply_update d c" i rows] findRow_cid[of i rows c]
  by (simp add: cid_apply_update)

lemma apply_soft_delete:
  "apply_update (no_change\<lparr>u_deletedAt := Some t, u_status := Some s\<rparr>) c
     = c\<lparr>status := s, deletedAt := Some t\<rparr>"
  by (simp add: apply_update_def no_change_def)

lemma apply_publish:
  "apply_update (no_change\<lparr>u_status := Some s, u_publishedAt := Some t\<rparr>) c
     = c\<lparr>status := s, publishedAt := Some t\<rparr>"
  by (simp add: apply_update_def no_change_def)

subsection \<open>Update: the version and its history\<close>

text \<open>
  C2. Take any run of \<open>updateContent\<close> on an item that exists. If the request succeeded, the
  stored item then has the version it had before plus one, it is the item the response
  carries, and exactly one row was appended to the version history, holding the title, the
  body and the version the item had before the update. The history row is written before the
  update: in every run, successful or not, after which the stored item differs from what it
  was, the history has that row.
\<close>

theorem update_increments_version_after_snapshot:
  assumes run: "updateContent e r w = (out, w')"
    and old: "findRow (params_id r) (contents w) = Some old"
  shows "(succeeded out \<longrightarrow>
            (\<exists>new. findRow (params_id r) (contents w') = Some new
               \<and> version new = version old + 1
               \<and> out = Res 200 (Item new) (Some ''Content updated successfully'') None)
            \<and> contentVersions w' = contentVersions w @
                 [\<lparr>cv_contentId = params_id r, cv_title = title old, cv_body = body old,
                   cv_version = version old, cv_createdBy = uid (req_user r)\<rparr>])
       \<and> (findRow (params_id r) (contents w') \<noteq> Some old \<longrightarrow>
            \<lparr>cv_contentId = params_id r, cv_title = title old, cv_body = body old,
              cv_version = version old, cv_createdBy = uid (req_user r)\<rparr>
              \<in> set (contentVersions w'))"
  using run old findRow_cid[OF old]
  unfolding updateContent_def updateContent_try_def step_defs succeeded_def Let_def
  by (auto split: if_splits simp: findRow_map cid_apply_update apply_update_def no_change_def)

theorem update_increments_version_after_snapshot_witness:
  "findRow ''c1'' (contents world1) = Some item1
   \<and> succeeded (fst (updateContent env_ok (request_of alice ''c1'' edit_body no_query) world1))
   \<and> (\<exists>new. findRow ''c1'' (contents (snd (updateContent env_ok
                 (request_of alice ''c1'' edit_body no_query) world1))) = Some new
          \<and> version new = 4)
   \<and> contentVersions (snd (updateContent env_ok
          (request_of alice ''c1'' edit_body no_query) world1))
       = [\<lparr>cv_contentId = ''c1'', cv_title = ''Old title'', cv_body = ''Old body'',
            cv_version = 3, cv_createdBy = ''alice''\<rparr>]"
proof -
  let ?r = "request_of alice ''c1'' edit_body no_query"
  have run: "updateContent env_ok ?r world1
      = (fst (updateContent env_ok ?r world1), snd (updateContent env_ok ?r world1))"
    by simp
  have old: "findRow (params_id ?r) (contents world1) = Some item1"
    by (simp add: sample_defs findRow_def)
  have ok: "succeeded (fst (updateContent env_ok ?r world1))"
    by (simp add: updateContent_def updateContent_try_def step_defs sample_defs findRow_def
          apply_update_def no_change_def js_or_def succeeded_def Let_def)
  have r: "params_id ?r = ''c1''" "uid (req_user ?r) = ''alice''"
    by (simp_all add: request_of_def alice_def)
  have i: "title item1 = ''Old title''" "body item1 = ''Old body''" "version item1 = 3"
    by (simp_all add: item1_def)
  have h: "contentVersions world1 = []"
    by (simp add: world1_def)
  show ?thesis
    using update_increments_version_after_snapshot [OF run old] ok old
    by (auto simp: r i h)
qed

text \<open>
  C10. After a successful update the stored item has the metadata it had when the request
  gives none (and, more generally, whenever the metadata of the request is falsy), the tags it
  had when the request gives none, and the status, publication time, deletion time and
  creation time it had, whatever the request says. Its author and identifier stay as well.
\<close>

theorem update_leaves_unmentioned_fields:
  assumes run: "updateContent e r w = (out, w')"
    and ok: "succeeded out"
    and old: "findRow (params_id r) (contents w) = Some old"
  shows "\<exists>new. findRow (params_id r) (contents w') = Some new
       \<and> (in_metadata (req_body r) = JUndefined \<longrightarrow> metadata new = metadata old)
       \<and> (\<not> truthy (in_metadata (req_body r)) \<longrightarrow> metadata new = metadata old)
       \<and> (in_tags (req_body r) = None \<longrightarrow> tags new = tags old)
       \<and> status new = status old \<and> publishedAt new = publishedAt old
       \<and> deletedAt new = deletedAt old \<and> createdAt new = createdAt old
       \<and> authorId new = authorId old \<and> cid new = cid old"
  using run ok old findRow_cid[OF old]
  unfolding updateContent_def updateContent_try_def step_defs succeeded_def Let_def
  by (auto split: if_splits simp: findRow_map cid_apply_update apply_update_def no_change_def js_or_def)

theorem update_leaves_unmentioned_fields_witness:
  "succeeded (fst (updateContent env_ok (request_of alice ''c1'' edit_body no_query) world1))
   \<and> findRow ''c1'' (contents world1) = Some item1
   \<and> in_metadata edit_body = JUndefined \<and> in_tags edit_body = None
   \<and> (\<exists>new. findRow ''c1'' (contents (snd (updateContent env_ok
                 (request_of alice ''c1'' edit_body no_query) world1))) = Some new
          \<and> metadata new = JObj [(''lang'', JStr ''en'')] \<and> tags new = [''news'']
          \<and> status new = ''published'' \<and> publishedAt new = Some 30
          \<and> deletedAt new = None \<and> createdAt new = 10)"
proof -
  let ?r = "request_of alice ''c1'' edit_body no_query"
  have run: "updateContent env_ok ?r world1
      = (fst (updateContent env_ok ?r world1), snd (updateContent env_ok ?r world1))"
    by simp
  have r: "params_id ?r = ''c1''" "req_body ?r = edit_body"
    by (simp_all add: request_of_def)
  have old: "findRow (params_id ?r) (contents world1) = Some item1"
    by (simp add: r world1_def item1_def findRow_def)
  have ok: "succeeded (fst (updateContent env_ok ?r world1))"
    by (simp add: updateContent_def updateContent_try_def step_defs sample_defs findRow_def
          apply_update_def no_change_def js_or_def succeeded_def Let_def)
  have b: "in_metadata edit_body = JUndefined" "in_tags edit_body = None"
    by (simp_all add: edit_body_def)
  have i: "metadata item1 = JObj [(''lang'', JStr ''en'')]" "tags item1 = [''news'']"
    "status item1 = ''published''" "publishedAt item1 = Some 30" "deletedAt item1 = None"
    "createdAt item1 = 10"
    by (simp_all add: item1_def)
  show ?thesis
    using update_leaves_unmentioned_fields [OF run ok old] ok old b
    by (auto simp: r i)
qed

subsection \<open>Update: authorisation\<close>

text \<open>
  C4. An update of an existing item, asked for by a user who is not the author of the item and
  whose role is not \<open>admin\<close>, never succeeds and leaves the rows of the store and the version
  history as they were. When the store can be read the request is passed on as the error
  ``Not authorized to update this content'' with status 403, and nothing at all has changed.
  (When the first read of the store throws, the outcome is the generic failure instead.)
\<close>

theorem update_by_stranger_is_forbidden:
  assumes "findRow (params_id r) (contents w) = Some c"
    and "authorId c \<noteq> uid (req_user r)" and "role (req_user r) \<noteq> ''admin''"
  shows "contents (snd (updateContent e r w)) = contents w
       \<and> contentVersions (snd (updateContent e r w)) = contentVersions w
       \<and> \<not> succeeded (fst (updateContent e r w))
       \<and> (\<not> faults e PrismaContentFindUnique \<longrightarrow>
            updateContent e r w = (NextErr ''Not authorized to update this content'' 403, w))"
  using assms
  unfolding updateContent_def updateContent_try_def step_defs succeeded_def Let_def
  by auto

theorem update_by_stranger_is_forbidden_witness:
  "findRow ''c1'' (contents world1) = Some item1
   \<and> authorId item1 \<noteq> uid mallory \<and> role mallory \<noteq> ''admin''
   \<and> updateContent env_ok (request_of mallory ''c1'' edit_body no_query) world1
       = (NextErr ''Not authorized to update this content'' 403, world1)"
proof -
  let ?r = "request_of mallory ''c1'' edit_body no_query"
  have r: "params_id ?r = ''c1''" "req_user ?r = mallory"
    by (simp_all add: request_of_def)
  have old: "findRow (params_id ?r) (contents world1) = Some item1"
    by (simp add: r world1_def item1_def findRow_def)
  have a: "authorId item1 \<noteq> uid (req_user ?r)" "role (req_user ?r) \<noteq> ''admin''"
    by (simp_all add: request_of_def item1_def mallory_def)
  have f: "\<not> faults env_ok PrismaContentFindUnique"
    by (simp add: env_ok_def)
  show ?thesis
    using update_by_stranger_is_forbidden [OF old a, of env_ok] old a f by (simp add: r)
qed

subsection \<open>Create\<close>

text \<open>
  C5. A successful create answers with status 201 and the inserted item: its status is
  \<open>draft\<close>, its version is 1 (the default of the column), and its tags are the names of the
  request without repetition, as a set the names the request gives (none when it gives no
  tags). Every tag is in the tag dictionary afterwards, which has kept the names it had. The
  item is in the store under its identifier.
\<close>

theorem create_gives_draft_version_one_tags:
  assumes run: "createContent e r w = (out, w')"
    and ok: "succeeded out"
  shows "\<exists>c. out = Res 201 (Item c) (Some ''Content created successfully'') None
       \<and> status c = ''draft'' \<and> version c = 1
       \<and> set (tags c) = (case in_tags (req_body r) of None \<Rightarrow> {} | Some ts \<Rightarrow> set ts)
       \<and> distinct (tags c)
       \<and> set (tagTable w') = set (tagTable w) \<union> set (tags c)
       \<and> findRow (cid c) (contents w') = Some c"
  using run ok
  unfolding createContent_def createContent_try_def step_defs succeeded_def Let_def
    connectOrCreate_def schema_default_version_def
  by (auto split: if_splits option.splits simp: findRow_append_new)

theorem create_gives_draft_version_one_tags_witness:
  "succeeded (fst (createContent env_ok (request_of alice [] new_body no_query) world1))
   \<and> (\<exists>c. fst (createContent env_ok (request_of alice [] new_body no_query) world1)
             = Res 201 (Item c) (Some ''Content created successfully'') None
        \<and> status c = ''draft'' \<and> version c = 1 \<and> set (tags c) = {''news'', ''tech''})"
proof -
  let ?r = "request_of alice [] new_body no_query"
  have run: "createContent env_ok ?r world1
      = (fst (createContent env_ok ?r world1), snd (createContent env_ok ?r world1))"
    by simp
  have ok: "succeeded (fst (createContent env_ok ?r world1))"
    by (simp add: createContent_def createContent_try_def step_defs sample_defs findRow_def
          js_or_def succeeded_def Let_def)
  have t: "in_tags (req_body ?r) = Some [''news'', ''tech'', ''news'']"
    by (simp add: request_of_def new_body_def)
  show ?thesis
    using create_gives_draft_version_one_tags [OF run ok] ok
    by (auto simp: t)
qed

subsection \<open>Delete\<close>

text \<open>
  C6. After a successful delete the row is still in the store, under the same identifier and
  among the same rows, with its title, body and version: its status is \<open>deleted\<close> and its
  deletion time is the time of the request. The search index has no document for the
  identifier any more.
\<close>

theorem delete_keeps_row_and_unindexes:
  assumes run: "deleteContent e r w = (out, w')"
    and ok: "succeeded out"
  shows "\<exists>old new. findRow (params_id r) (contents w) = Some old
       \<and> findRow (params_id r) (contents w') = Some new
       \<and> status new = ''deleted'' \<and> deletedAt new = Some (now e)
       \<and> title new = title old \<and> body new = body old \<and> version new = version old
       \<and> map cid (contents w') = map cid (contents w)
       \<and> params_id r \<notin> fst ` set (searchIndex w')
       \<and> out = Res 200 NoData (Some ''Content deleted successfully'') None"
  using run ok
  unfolding deleteContent_def deleteContent_try_def step_defs succeeded_def Let_def remove_doc_def
  by (auto split: if_splits option.splits
        simp: findRow_map_apply map_cid_apply apply_soft_delete dest: findRow_cid)

theorem delete_keeps_row_and_unindexes_witness:
  "succeeded (fst (deleteContent env_ok (request_of alice ''c1'' edit_body no_query) world1))
   \<and> (\<exists>new. findRow ''c1'' (contents (snd (deleteContent env_ok
         (request_of alice ''c1'' edit_body no_query) world1))) = Some new
        \<and> status new = ''deleted'' \<and> deletedAt new = Some 100 \<and> title new = ''Old title'')
   \<and> map cid (contents (snd (deleteContent env_ok
         (request_of alice ''c1'' edit_body no_query) world1))) = [''c1'', ''c2'', ''c3'']
   \<and> ''c1'' \<in> fst ` set (searchIndex world1)
   \<and> ''c1'' \<notin> fst ` set (searchIndex (snd (deleteContent env_ok
         (request_of alice ''c1'' edit_body no_query) world1)))"
proof -
  let ?r = "request_of alice ''c1'' edit_body no_query"
  have run: "deleteContent env_ok ?r world1
      = (fst (deleteContent env_ok ?r world1), snd (deleteContent env_ok ?r world1))"
    by simp
  have ok: "succeeded (fst (deleteContent env_ok ?r world1))"
    by (simp add: deleteContent_def deleteContent_try_def step_defs sample_defs findRow_def
          apply_update_def no_change_def succeeded_def Let_def)
  have r: "params_id ?r = ''c1''"
    by (simp add: request_of_def)
  have old: "findRow ''c1'' (contents world1) = Some item1"
    by (simp add: world1_def item1_def findRow_def)
  have n: "now env_ok = 100" "map cid (contents world1) = [''c1'', ''c2'', ''c3'']"
    "''c1'' \<in> fst ` set (searchIndex world1)" "title item1 = ''Old title''"
    by (simp_all add: sample_defs)
  show ?thesis
    using delete_keeps_row_and_unindexes [OF run ok] ok old n by (auto simp: r)
qed

subsection \<open>Publish\<close>

text \<open>
  C9. \<open>publishContent\<close> has two outcomes only: the answer with status 200, or the generic
  failure ``Failed to publish content'' with status 500; it never passes on a 403 or a 404.
  For an identifier the store has no row for, the outcome is the generic failure and the rows
  are untouched. For an item that exists, whoever the user is, the request succeeds as soon as
  no call throws, and the item is then published at the time of the request.
\<close>

theorem publish_checks_neither_existence_nor_owner:
  "(fst (publishContent e r w) = NextErr ''Failed to publish content'' 500
      \<or> (\<exists>c. fst (publishContent e r w)
                = Res 200 (Item c) (Some ''Content published successfully'') None))
   \<and> (findRow (params_id r) (contents w) = None \<longrightarrow>
         fst (publishContent e r w) = NextErr ''Failed to publish content'' 500
         \<and> contents (snd (publishContent e r w)) = contents w)
   \<and> (\<forall>old. findRow (params_id r) (contents w) = Some old
         \<and> \<not> faults e PrismaContentUpdate \<and> \<not> faults e NotifyContentPublished
         \<and> \<not> faults e (CacheDel (''content:'' @ params_id r))
         \<and> \<not> faults e (CacheDel ''content:list:*'') \<longrightarrow>
         (\<exists>new. fst (publishContent e r w)
                  = Res 200 (Item new) (Some ''Content published successfully'') None
             \<and> findRow (params_id r) (contents (snd (publishContent e r w))) = Some new
             \<and> status new = ''published'' \<and> publishedAt new = Some (now e)
             \<and> authorId new = authorId old))"
  unfolding publishContent_def publishContent_try_def step_defs Let_def
  by (auto split: option.splits simp: findRow_map_apply apply_publish)

theorem publish_checks_neither_existence_nor_owner_witness:
  "findRow ''zz'' (contents world1) = None
   \<and> fst (publishContent env_ok (request_of mallory ''zz'' edit_body no_query) world1)
       = NextErr ''Failed to publish content'' 500
   \<and> findRow ''c2'' (contents world1) = Some item2
   \<and> authorId item2 \<noteq> uid mallory \<and> role mallory \<noteq> ''admin''
   \<and> (\<exists>new. fst (publishContent env_ok (request_of mallory ''c2'' edit_body no_query) world1)
              = Res 200 (Item new) (Some ''Content published successfully'') None
        \<and> status new = ''published'' \<and> publishedAt new = Some 100
        \<and> authorId new = ''alice'')"
proof -
  let ?r = "request_of mallory ''zz'' edit_body no_query"
  let ?s = "request_of mallory ''c2'' edit_body no_query"
  have r: "params_id ?r = ''zz''" "params_id ?s = ''c2''"
    by (simp_all add: request_of_def)
  have none: "findRow ''zz'' (contents world1) = None"
    by (simp add: world1_def item1_def item2_def item3_def findRow_def)
  have old: "findRow ''c2'' (contents world1) = Some item2"
    by (simp add: world1_def item1_def item2_def item3_def findRow_def)
  have f: "\<not> faults env_ok PrismaContentUpdate" "\<not> faults env_ok NotifyContentPublished"
    "\<not> faults env_ok (CacheDel ''content:c2'')"
    "\<not> faults env_ok (CacheDel ''content:list:*'')" "now env_ok = 100"
    by (simp_all add: env_ok_def)
  have a: "authorId item2 \<noteq> uid mallory" "role mallory \<noteq> ''admin''"
    "authorId item2 = ''alice''"
    by (simp_all add: item2_def mallory_def)
  show ?thesis
    using publish_checks_neither_existence_nor_owner [of env_ok ?r world1]
      publish_checks_neither_existence_nor_owner [of env_ok ?s world1] none old a
    by (auto simp: r f)
qed

subsection \<open>Failures of the downstream calls\<close>

text \<open>
  What each mutating handler does once its writes to the store have gone through, by the
  downstream calls that throw. The analysis request is not awaited and has a handler for its
  rejection; the search index, the notifier and the cache are awaited inside the \<^verbatim>\<open>try\<close>
  block.
\<close>

lemma create_downstream:
  assumes "\<not> faults e PrismaContentCreate" and "findRow (newId e) (contents w) = None"
  shows "(succeeded (fst (createContent e r w)) \<longleftrightarrow>
            \<not> faults e SearchIndexContent \<and> \<not> faults e (CacheDel ''content:list:*''))
       \<and> (\<not> succeeded (fst (createContent e r w)) \<longrightarrow>
            fst (createContent e r w) = NextErr ''Failed to create content'' 500
            \<and> (\<exists>c. faults e c \<and> LogError ''Error creating content:'' (Rejected c)
                      \<in> set (logs (snd (createContent e r w)))))
       \<and> findRow (newId e) (contents (snd (createContent e r w))) \<noteq> None
       \<and> (faults e MlAnalyzeContent \<longrightarrow>
            LogError ''Error analyzing content:'' (Rejected MlAnalyzeContent)
              \<in> set (logs (snd (createContent e r w))))"
  using assms
  unfolding createContent_def createContent_try_def step_defs succeeded_def Let_def
  by (auto simp: findRow_append_new)

lemma update_downstream:
  assumes "\<not> faults e PrismaContentFindUnique" and "\<not> faults e PrismaContentVersionCreate"
    and "\<not> faults e PrismaContentUpdate"
    and "findRow (params_id r) (contents w) = Some old"
    and "authorId old = uid (req_user r) \<or> role (req_user r) = ''admin''"
  shows "(succeeded (fst (updateContent e r w)) \<longleftrightarrow>
            \<not> faults e SearchUpdateContent \<and> \<not> faults e (CacheDel (''content:'' @ params_id r))
            \<and> \<not> faults e (CacheDel ''content:list:*''))
       \<and> (\<not> succeeded (fst (updateContent e r w)) \<longrightarrow>
            fst (updateContent e r w) = NextErr ''Failed to update content'' 500
            \<and> (\<exists>c. faults e c \<and> LogError ''Error updating content:'' (Rejected c)
                      \<in> set (logs (snd (updateContent e r w)))))
       \<and> (\<exists>new. findRow (params_id r) (contents (snd (updateContent e r w))) = Some new
                 \<and> version new = version old + 1)
       \<and> (faults e MlAnalyzeContent \<longrightarrow>
            LogError ''Error analyzing content:'' (Rejected MlAnalyzeContent)
              \<in> set (logs (snd (updateContent e r w))))"
  using assms findRow_cid[OF assms(4)]
  unfolding updateContent_def updateContent_try_def step_defs succeeded_def Let_def
  by (auto simp: findRow_map cid_apply_update apply_update_def no_change_def)

lemma delete_downstream:
  assumes "\<not> faults e PrismaContentFindUnique" and "\<not> faults e PrismaContentUpdate"
    and "findRow (params_id r) (contents w) = Some old"
    and "authorId old = uid (req_user r) \<or> role (req_user r) = ''admin''"
  shows "(succeeded (fst (deleteContent e r w)) \<longleftrightarrow>
            \<not> faults e SearchDeleteContent \<and> \<not> faults e (CacheDel (''content:'' @ params_id r))
            \<and> \<not> faults e (CacheDel ''content:list:*''))
       \<and> (\<not> succeeded (fst (deleteContent e r w)) \<longrightarrow>
            fst (deleteContent e r w) = NextErr ''Failed to delete content'' 500
            \<and> (\<exists>c. faults e c \<and> LogError ''Error deleting content:'' (Rejected c)
                      \<in> set (logs (snd (deleteContent e r w)))))
       \<and> (\<exists>new. findRow (params_id r) (contents (snd (deleteContent e r w))) = Some new
                 \<and> status new = ''deleted'')"
  using assms findRow_cid[OF assms(3)]
  unfolding deleteContent_def deleteContent_try_def step_defs succeeded_def Let_def
  by (auto simp: findRow_map cid_apply_update apply_update_def no_change_def)

lemma publish_downstream:
  assumes "\<not> faults e PrismaContentUpdate"
    and "findRow (params_id r) (contents w) = Some old"
  shows "(succeeded (fst (publishContent e r w)) \<longleftrightarrow>
            \<not> faults e NotifyContentPublished \<and> \<not> faults e (CacheDel (''content:'' @ params_id r))
            \<and> \<not> faults e (CacheDel ''content:list:*''))
       \<and> (\<not> succeeded (fst (publishContent e r w)) \<longrightarrow>
            fst (publishContent e r w) = NextErr ''Failed to publish content'' 500
            \<and> (\<exists>c. faults e c \<and> LogError ''Error publishing content:'' (Rejected c)
                      \<in> set (logs (snd (publishContent e r w)))))
       \<and> (\<exists>new. findRow (params_id r) (contents (snd (publishContent e r w))) = Some new
                 \<and> status new = ''published'')"
  using assms findRow_cid[OF assms(2)]
  unfolding publishContent_def publishContent_try_def step_defs succeeded_def Let_def
  by (auto simp: findRow_map cid_apply_update apply_update_def no_change_def)

lemma faults_env_failing: "faults (env_failing c) x = (x = c)"
  by (simp add: env_failing_def)

text \<open>
  C1, as stated, fails: the search index throws during an update by the author of the item.
  The store has the new title, body and version, and the request is passed on as the generic
  failure with status 500; the log has the error.
\<close>

theorem search_failure_fails_update:
  "fst (updateContent (env_failing SearchUpdateContent)
          (request_of alice ''c1'' edit_body no_query) world1)
     = NextErr ''Failed to update content'' 500
   \<and> findRow ''c1'' (contents world1) = Some item1
   \<and> findRow ''c1'' (contents (snd (updateContent (env_failing SearchUpdateContent)
          (request_of alice ''c1'' edit_body no_query) world1)))
     = Some (item1\<lparr>title := ''New title'', body := ''New body'', version := 4, updatedAt := 100\<rparr>)
   \<and> logs (snd (updateContent (env_failing SearchUpdateContent)
          (request_of alice ''c1'' edit_body no_query) world1))
     = [LogError ''Error updating content:'' (Rejected SearchUpdateContent)]"
  by (simp add: updateContent_def updateContent_try_def step_defs sample_defs findRow_def
        apply_update_def no_change_def js_or_def Let_def)

text \<open>
  C1, amended. Let the store writes of a mutating request go through (create: the insert;
  update: the read, the history row and the update, by the author or an admin; delete: the
  read and the update, by the author or an admin; publish: the update of an existing row).
  Then the request succeeds exactly when none of its awaited downstream calls throws: the
  search index call and the cache invalidations, and for publish the notification and the
  cache invalidations. When one throws, the request is passed on as the generic failure with
  status 500, the error is logged, and the write to the store stays. A rejected analysis
  request (create and update) has no part in the outcome and is logged.
\<close>

theorem awaited_downstream_failure_fails_request:
  "(\<not> faults e PrismaContentCreate \<and> findRow (newId e) (contents w) = None \<longrightarrow>
      (succeeded (fst (createContent e r w)) \<longleftrightarrow>
         \<not> faults e SearchIndexContent \<and> \<not> faults e (CacheDel ''content:list:*''))
      \<and> (\<not> succeeded (fst (createContent e r w)) \<longrightarrow>
           fst (createContent e r w) = NextErr ''Failed to create content'' 500
           \<and> (\<exists>c. faults e c \<and> LogError ''Error creating content:'' (Rejected c)
                     \<in> set (logs (snd (createContent e r w)))))
      \<and> findRow (newId e) (contents (snd (createContent e r w))) \<noteq> None
      \<and> (faults e MlAnalyzeContent \<longrightarrow>
           LogError ''Error analyzing content:'' (Rejected MlAnalyzeContent)
             \<in> set (logs (snd (createContent e r w)))))
   \<and> (\<forall>old. \<not> faults e PrismaContentFindUnique \<and> \<not> faults e PrismaContentVersionCreate
         \<and> \<not> faults e PrismaContentUpdate
         \<and> findRow (params_id r) (contents w) = Some old
         \<and> (authorId old = uid (req_user r) \<or> role (req_user r) = ''admin'') \<longrightarrow>
      (succeeded (fst (updateContent e r w)) \<longleftrightarrow>
         \<not> faults e SearchUpdateContent \<and> \<not> faults e (CacheDel (''content:'' @ params_id r))
         \<and> \<not> faults e (CacheDel ''content:list:*''))
      \<and> (\<not> succeeded (fst (updateContent e r w)) \<longrightarrow>
           fst (updateContent e r w) = NextErr ''Failed to update content'' 500
           \<and> (\<exists>c. faults e c \<and> LogError ''Error updating content:'' (Rejected c)
                     \<in> set (logs (snd (updateContent e r w)))))
      \<and> (\<exists>new. findRow (params_id r) (contents (snd (updateContent e r w))) = Some new
                \<and> version new = version old + 1)
      \<and> (faults e MlAnalyzeContent \<longrightarrow>
           LogError ''Error analyzing content:'' (Rejected MlAnalyzeContent)
             \<in> set (logs (snd (updateContent e r w)))))
   \<and> (\<forall>old. \<not> faults e PrismaContentFindUnique \<and> \<not> faults e PrismaContentUpdate
         \<and> findRow (params_id r) (contents w) = Some old
         \<and> (authorId old = uid (req_user r) \<or> role (req_user r) = ''admin'') \<longrightarrow>
      (succeeded (fst (deleteContent e r w)) \<longleftrightarrow>
         \<not> faults e SearchDeleteContent \<and> \<not> faults e (CacheDel (''content:'' @ params_id r))
         \<and> \<not> faults e (CacheDel ''content:list:*''))
      \<and> (\<not> succeeded (fst (deleteContent e r w)) \<longrightarrow>
           fst (deleteContent e r w) = NextErr ''Failed to delete content'' 500
           \<and> (\<exists>c. faults e c \<and> LogError ''Error deleting content:'' (Rejected c)
                     \<in> set (logs (snd (deleteContent e r w)))))
      \<and> (\<exists>new. findRow (params_id r) (contents (snd (deleteContent e r w))) = Some new
                \<and> status new = ''deleted''))
   \<and> (\<forall>old. \<not> faults e PrismaContentUpdate
         \<and> findRow (params_id r) (contents w) = Some old \<longrightarrow>
      (succeeded (fst (publishContent e r w)) \<longleftrightarrow>
         \<not> faults e NotifyContentPublished \<and> \<not> faults e (CacheDel (''content:'' @ params_id r))
         \<and> \<not> faults e (CacheDel ''content:list:*''))
      \<and> (\<not> succeeded (fst (publishContent e r w)) \<longrightarrow>
           fst (publishContent e r w) = NextErr ''Failed to publish content'' 500
           \<and> (\<exists>c. faults e c \<and> LogError ''Error publishing content:'' (Rejected c)
                     \<in> set (logs (snd (publishContent e r w)))))
      \<and> (\<exists>new. findRow (params_id r) (contents (snd (publishContent e r w))) = Some new
                \<and> status new = ''published''))"
  apply (rule conjI)
   apply (rule impI, erule conjE, rule create_downstream; assumption)
  apply (rule conjI)
   apply (rule allI, rule impI, elim conjE, rule update_downstream; assumption)
  apply (rule conjI)
   apply (rule allI, rule impI, elim conjE, rule delete_downstream; assumption)
  apply (rule allI, rule impI, elim conjE, rule publish_downstream; assumption)
  done

theorem awaited_downstream_failure_fails_request_witness:
  "succeeded (fst (createContent (env_failing MlAnalyzeContent)
       (request_of alice [] new_body no_query) world1))
   \<and> LogError ''Error analyzing content:'' (Rejected MlAnalyzeContent)
       \<in> set (logs (snd (createContent (env_failing MlAnalyzeContent)
             (request_of alice [] new_body no_query) world1)))
   \<and> fst (updateContent (env_failing SearchUpdateContent)
         (request_of alice ''c1'' edit_body no_query) world1)
       = NextErr ''Failed to update content'' 500
   \<and> fst (deleteContent (env_failing (CacheDel ''content:list:*''))
         (request_of alice ''c1'' edit_body no_query) world1)
       = NextErr ''Failed to delete content'' 500
   \<and> fst (publishContent (env_failing NotifyContentPublished)
         (request_of alice ''c1'' edit_body no_query) world1)
       = NextErr ''Failed to publish content'' 500"
proof -
  let ?c = "request_of alice [] new_body no_query"
  let ?r = "request_of alice ''c1'' edit_body no_query"
  have new: "findRow (newId (env_failing x)) (contents world1) = None" for x
    by (simp add: sample_defs findRow_def)
  have old: "findRow (params_id ?r) (contents world1) = Some item1"
    by (simp add: sample_defs findRow_def)
  have own: "authorId item1 = uid (req_user ?r)"
    by (simp add: sample_defs)
  have r: "params_id ?r = ''c1''"
    by (simp add: request_of_def)
  have "succeeded (fst (createContent (env_failing MlAnalyzeContent) ?c world1))
      \<and> LogError ''Error analyzing content:'' (Rejected MlAnalyzeContent)
          \<in> set (logs (snd (createContent (env_failing MlAnalyzeContent) ?c world1)))"
    using awaited_downstream_failure_fails_request [where e = "env_failing MlAnalyzeContent" and r = ?c and w = world1,
        THEN conjunct1] new
    by (simp add: faults_env_failing)
  moreover have "fst (updateContent (env_failing SearchUpdateContent) ?r world1)
      = NextErr ''Failed to update content'' 500"
    using awaited_downstream_failure_fails_request [where e = "env_failing SearchUpdateContent" and r = ?r and w = world1,
        THEN conjunct2, THEN conjunct1, rule_format, of item1] old own
    by (simp add: faults_env_failing)
  moreover have "fst (deleteContent (env_failing (CacheDel ''content:list:*'')) ?r world1)
      = NextErr ''Failed to delete content'' 500"
    using awaited_downstream_failure_fails_request [where e = "env_failing (CacheDel ''content:list:*'')" and r = ?r and w = world1,
        THEN conjunct2, THEN conjunct2, THEN conjunct1, rule_format, of item1] old own
    by (simp add: faults_env_failing)
  moreover have "fst (publishContent (env_failing NotifyContentPublished) ?r world1)
      = NextErr ''Failed to publish content'' 500"
    using awaited_downstream_failure_fails_request [where e = "env_failing NotifyContentPublished" and r = ?r and w = world1,
        THEN conjunct2, THEN conjunct2, THEN conjunct2, rule_format, of item1] old
    by (simp add: faults_env_failing)
  ultimately show ?thesis
    by blast
qed

subsection \<open>Pagination\<close>

lemmas number_defs = destructure_def if_given_def to_number_def parseInt_def trim_def
  is_space_def is_digit_def digit_val_def radix_value_def digits_value_def radix_prefix_def
  nondecimal_def unsigned_decimal_def exponent_part_def pow10_def int_arg_def page_of_rows_def

text \<open>
  On a string of decimal digits the two conversions give the same number. So when \<open>limit\<close>
  is absent or such a string, and not zero, the envelope reports the number the total is
  divided by, and \<open>pages\<close> is the ceiling of the total by the limit (the numbers taken exactly,
  as JavaScript does below \<open>2 ^ 53\<close>).
\<close>

lemma digit_not_space: "is_digit c \<Longrightarrow> \<not> is_space c"
  by (auto simp: is_digit_def is_space_def)

lemma digit_not_sign: "is_digit c \<Longrightarrow> c \<noteq> CHR ''-'' \<and> c \<noteq> CHR ''+''"
  by (auto simp: is_digit_def)

lemma digit_val_digit: "is_digit c \<Longrightarrow> digit_val c < 10"
  by (auto simp: is_digit_def digit_val_def Let_def)

lemma digits_no_prefix:
  assumes "list_all (\<lambda>c. \<not> is_digit c) letters" and "list_all is_digit s"
  shows "\<not> radix_prefix letters s"
  using assms by (auto simp: radix_prefix_def list_all_iff split: list.splits)

lemma digits_parseInt:
  assumes "s \<noteq> []" and "list_all is_digit s"
  shows "parseInt s = Num (of_int (digits_value s))"
proof -
  obtain c t where s: "s = c # t" using assms(1) by (cases s) auto
  have c: "is_digit c" using assms(2) s by simp
  have 1: "dropWhile is_space s = s" using c s digit_not_space by simp
  have 2: "strip_sign s = (False, s)" using c s digit_not_sign by simp
  have 3: "\<not> radix_prefix ''xX'' s"
    using assms(2) by (intro digits_no_prefix) (simp_all add: is_digit_def)
  have 4: "takeWhile (\<lambda>c. digit_val c < 10) s = s"
    using assms(2) digit_val_digit by (simp add: list_all_iff takeWhile_eq_all_conv)
  show ?thesis
    using assms(1) by (simp add: parseInt_def 1 2 3 4 digits_value_def)
qed

lemma digits_to_number:
  assumes "s \<noteq> []" and "list_all is_digit s"
  shows "to_number s = Num (of_int (digits_value s))"
proof -
  obtain c t where s: "s = c # t" using assms(1) by (cases s) auto
  have c: "is_digit c" using assms(2) s by simp
  have 1: "dropWhile is_space s = s" using c s digit_not_space by simp
  have l: "is_digit (last s)" using assms by (simp add: list_all_iff)
  have "dropWhile is_space (rev s) = rev s"
    using l assms(1) digit_not_space by (cases "rev s") (auto simp: hd_rev dest: arg_cong[of _ _ hd])
  then have 0: "trim s = s" by (simp add: trim_def 1)
  have 2: "strip_sign s = (False, s)" using c s digit_not_sign by simp
  have 3: "nondecimal s = None"
    using assms(2) digits_no_prefix[of _ s] by (simp add: nondecimal_def is_digit_def)
  have 4: "takeWhile is_digit s = s" "dropWhile is_digit s = []"
    using assms(2) by (simp_all add: list_all_iff takeWhile_eq_all_conv)
  have 5: "s \<noteq> ''Infinity''" using c s by (auto simp: is_digit_def)
  show ?thesis
    using assms(1)
    by (simp add: to_number_def 0 2 3 4 5 unsigned_decimal_def exponent_part_def pow10_def
          digits_value_def radix_value_def)
qed
lemma integer_limit:
  assumes "case q of None \<Rightarrow> True | Some s \<Rightarrow> s \<noteq> [] \<and> list_all is_digit s \<and> 0 < digits_value s"
  shows "parseInt_of (destructure q 20) = Num (of_int (case q of None \<Rightarrow> 20 | Some s \<Rightarrow> digits_value s))"
    and "number_of (destructure q 20) = Num (of_int (case q of None \<Rightarrow> 20 | Some s \<Rightarrow> digits_value s))"
    and "0 < (case q of None \<Rightarrow> 20 | Some s \<Rightarrow> digits_value s)"
  using assms
  by (auto simp: destructure_def digits_parseInt digits_to_number split: option.splits)

lemma list_pages_on_integer_limit:
  assumes lim: "case q_limit (req_query r) of None \<Rightarrow> True
                | Some s \<Rightarrow> s \<noteq> [] \<and> list_all is_digit s \<and> 0 < digits_value s"
    and ok: "succeeded (fst (getAllContent e r w))"
  shows "\<exists>rows pg. fst (getAllContent e r w) = Res 200 (Items rows) None (Some pg)
           \<and> limit pg = Num (of_int (case q_limit (req_query r) of None \<Rightarrow> 20 | Some s \<Rightarrow> digits_value s))
           \<and> pages pg = Num (of_int \<lceil>(of_nat (total pg) :: rat)
                 / of_int (case q_limit (req_query r) of None \<Rightarrow> 20 | Some s \<Rightarrow> digits_value s)\<rceil>)"
proof -
  define n where "n = (case q_limit (req_query r) of None \<Rightarrow> 20 | Some s \<Rightarrow> digits_value s)"
  have p: "parseInt_of (destructure (q_limit (req_query r)) 20) = Num (of_int n)"
    and m: "number_of (destructure (q_limit (req_query r)) 20) = Num (of_int n)"
    and n: "0 < n"
    using integer_limit[OF lim] by (simp_all add: n_def)
  show ?thesis
    using ok n
    unfolding n_def[symmetric] getAllContent_def getAllContent_try_def Let_def p m
      try_catch_def await_def prisma_content_count_def succeeded_def
    by (cases "prisma_content_findMany e
          \<lparr>where_status = if_given (q_status (req_query r)),
             where_categoryId = if_given (q_categoryId (req_query r)),
             where_authorId = if_given (q_authorId (req_query r)),
             where_search = if_given (q_search (req_query r))\<rparr>
          (parseInt_num (js_mul (js_sub (number_of (destructure (q_page (req_query r)) 1)) (Num 1))
             (Num (of_int n))))
          (Num (of_int n))
          (case q_sortBy (req_query r) of None \<Rightarrow> ''createdAt'' | Some s \<Rightarrow> s)
          (case q_order (req_query r) of None \<Rightarrow> ''desc'' | Some s \<Rightarrow> s) w")
       (auto split: sum.splits if_splits)
qed

lemma search_pages_on_integer_limit:
  assumes lim: "case q_limit (req_query r) of None \<Rightarrow> True
                | Some s \<Rightarrow> s \<noteq> [] \<and> list_all is_digit s \<and> 0 < digits_value s"
    and ok: "succeeded (fst (searchContent e r w))"
  shows "\<exists>rows pg. fst (searchContent e r w) = Res 200 (Items rows) None (Some pg)
           \<and> limit pg = Num (of_int (case q_limit (req_query r) of None \<Rightarrow> 20 | Some s \<Rightarrow> digits_value s))
           \<and> pages pg = Num (of_int \<lceil>(of_nat (total pg) :: rat)
                 / of_int (case q_limit (req_query r) of None \<Rightarrow> 20 | Some s \<Rightarrow> digits_value s)\<rceil>)"
proof -
  define n where "n = (case q_limit (req_query r) of None \<Rightarrow> 20 | Some s \<Rightarrow> digits_value s)"
  have p: "parseInt_of (destructure (q_limit (req_query r)) 20) = Num (of_int n)"
    and m: "number_of (destructure (q_limit (req_query r)) 20) = Num (of_int n)"
    and n: "0 < n"
    using integer_limit[OF lim] by (simp_all add: n_def)
  show ?thesis
    using ok n
    unfolding n_def[symmetric] searchContent_def searchContent_try_def Let_def p m
      try_catch_def await_def searchService_search_def succeeded_def
    by (cases "parse_filters e (q_filters (req_query r)) w")
       (auto split: sum.splits if_splits)
qed

text \<open>
  C7. A list request with \<^verbatim>\<open>limit=1.5\<close> on a store of three items is answered with one item,
  \<open>limit\<close> 1 and \<open>total\<close> 3, and with \<open>pages\<close> 2, the ceiling of \<open>3 / 1.5\<close>; the ceiling of the
  total by the limit of the envelope is 3. The search handler does the same: for a total of
  45 it reports \<open>limit\<close> 1 and \<open>pages\<close> 30.
\<close>

theorem pages_divides_by_unparsed_limit:
  "getAllContent env_ok (request_of alice [] edit_body (no_query\<lparr>q_limit := Some ''1.5''\<rparr>)) world1
     = (Res 200 (Items [item1]) None
          (Some \<lparr>page = Num 1, limit = Num 1, total = 3, pages = Num 2\<rparr>), world1)
   \<and> searchContent env_ok (request_of alice [] edit_body (no_query\<lparr>q_limit := Some ''1.5''\<rparr>)) world1
     = (Res 200 (Items [item1]) None
          (Some \<lparr>page = Num 1, limit = Num 1, total = 45, pages = Num 30\<rparr>), world1)"
  by (simp add: getAllContent_def getAllContent_try_def searchContent_def searchContent_try_def
        number_defs try_catch_def await_def prisma_content_count_def prisma_content_findMany_def
        parse_filters_def searchService_search_def row_matches_def sample_defs Let_def
        ceiling_eq_iff)

subsection \<open>Routing\<close>

text \<open>
  C3. A \<^verbatim>\<open>GET\<close> of \<^verbatim>\<open>/search\<close> below the mount point of the router goes to the registration
  of \<^verbatim>\<open>/:id\<close>, which is made before that of \<^verbatim>\<open>/search\<close>: the request is handled by
  \<open>getContentById\<close> with the identifier \<open>search\<close>. In a store with no such row the answer is
  the error ``Content not found'' with status 404, and the search service is not asked.
\<close>

theorem get_search_is_read_by_id:
  "first_match content_routes GET [''search'']
     = Some (mk_route GET [Param ''id''] [CacheMiddleware 300] ''getContentById'',
             [(''id'', ''search'')])
   \<and> getContentById env_ok (request_of alice ''search'' edit_body no_query) world1
     = (NextErr ''Content not found'' 404, world1)"
  by (simp add: content_routes_def mk_route_def getContentById_def getContentById_try_def
        step_defs sample_defs findRow_def Let_def)

text \<open>
  C8. Three registrations of the router name a handler the controller does not export:
  \<open>archiveContent\<close>, \<open>restoreVersion\<close> and \<open>duplicateContent\<close>. Loading the router stops at the
  first of them with the error Express raises for a handler that is not a function.
\<close>

theorem archive_restore_duplicate_are_not_exported:
  "map route_handler (filter (\<lambda>rt. route_handler rt \<notin> set controller_exports) content_routes)
     = [''archiveContent'', ''restoreVersion'', ''duplicateContent'']
   \<and> load_router content_routes = Inl (RequiresCallback POST ''archiveContent'')"
  by (simp add: content_routes_def mk_route_def controller_exports_def register_def)

end
